theory Spec2Isabelle
  imports Complex_Main "HOL-Library.Sublist"
begin

section \<open>JavaScript strings\<close>

text \<open>
  A JavaScript string is modelled as a \<^typ>\<open>string\<close>, a list of characters. The three
  string methods that the sources call are written out as recursive functions:
  \<^verbatim>\<open>s.startsWith(p)\<close>, \<^verbatim>\<open>s.includes(p)\<close> (here \<open>includes_str\<close>) and \<^verbatim>\<open>s.trim()\<close>.
  A value of type \<^verbatim>\<open>string | null\<close> is a \<^typ>\<open>string option\<close>; JavaScript's
  truthiness test \<^verbatim>\<open>if (x)\<close> on such a value is \<open>truthy\<close>: both \<^verbatim>\<open>null\<close> and
  the empty string are falsy.
\<close>

fun startsWith :: "string \<Rightarrow> string \<Rightarrow> bool" where
  "startsWith s [] = True"
| "startsWith [] (p # ps) = False"
| "startsWith (c # cs) (p # ps) = (c = p \<and> startsWith cs ps)"

fun includes_str :: "string \<Rightarrow> string \<Rightarrow> bool" where
  "includes_str [] p = (p = [])"
| "includes_str (c # cs) p = (startsWith (c # cs) p \<or> includes_str cs p)"

definition truthy :: "string option \<Rightarrow> bool" where
  "truthy x = (case x of None \<Rightarrow> False | Some s \<Rightarrow> s \<noteq> [])"

definition is_space :: "char \<Rightarrow> bool" where
  \<comment> \<open>the white space and line terminators of \<^verbatim>\<open>String.prototype.trim\<close> that fit in one byte\<close>
  "is_space c = (c \<in> set [CHR 0x09, CHR 0x0A, CHR 0x0B, CHR 0x0C, CHR 0x0D, CHR 0x20, CHR 0xA0])"

definition trim :: "string \<Rightarrow> string" where
  "trim s = rev (dropWhile is_space (rev (dropWhile is_space s)))"

section \<open>The data of \<^verbatim>\<open>types.ts\<close>\<close>

datatype EducationLevel = FOUNDATION | BOARD_LEVEL | COMPETITIVE | UNDERGRADUATE

fun level_value :: "EducationLevel \<Rightarrow> string" where
  \<comment> \<open>the string value of each member of the enum, which is what \<^verbatim>\<open>${level}\<close> interpolates\<close>
  "level_value FOUNDATION = ''Class 9-10 (Foundation)''"
| "level_value BOARD_LEVEL = ''Class 11-12 (CBSE/State Boards)''"
| "level_value COMPETITIVE = ''JEE Mains/Advanced & NEET''"
| "level_value UNDERGRADUATE = ''Undergraduate (B.Sc/B.Tech)''"

text \<open>
  \<^verbatim>\<open>JSON.parse(response.text) as ChemicalData\<close> is a cast: at run time the value is whatever
  the parser built. So the result of an analysis is a JSON value; \<open>'n\<close> is the type of
  its numbers. An object is the list of its members in insertion order.
\<close>

datatype 'n json =
    JNull
  | JBool bool
  | JNumber 'n
  | JString string
  | JArray "'n json list"
  | JObject "(string \<times> 'n json) list"

fun field :: "'n json \<Rightarrow> string \<Rightarrow> 'n json option" where
  \<comment> \<open>property access \<^verbatim>\<open>data.k\<close>; \<open>None\<close> is \<^verbatim>\<open>undefined\<close>\<close>
  "field (JObject kvs) k = map_of kvs k"
| "field _ k = None"

section \<open>The analysis service (\<^verbatim>\<open>services/gemini.ts\<close>)\<close>

subsection \<open>Errors\<close>

text \<open>
  A thrown value is read through \<^verbatim>\<open>error.message || error.toString()\<close> only, so it is
  modelled by these two readings. \<open>Error msg\<close> is \<^verbatim>\<open>new Error(msg)\<close>.
\<close>

record js_error =
  message :: "string option"
  toString :: string

definition Error :: "string \<Rightarrow> js_error" where
  "Error msg = \<lparr>message = Some msg,
     toString = (if msg = [] then ''Error'' else ''Error: '' @ msg)\<rparr>"

definition errString :: "js_error \<Rightarrow> string" where
  "errString error = (if truthy (message error) then the (message error) else toString error)"

text \<open>
  The source has no error classes: a failure is an \<^verbatim>\<open>Error\<close> carrying one of the
  following messages. The names are those of the specification's error taxonomy.
\<close>

definition ValidationError :: string where
  "ValidationError = ''Please provide a drawing or chemical name.''"

definition AuthError :: string where
  "AuthError = ''Authentication Failed: Please check your API key configuration.''"

definition AccessDeniedError :: string where
  "AccessDeniedError = ''Access Denied: The API key cannot access this model or region.''"

definition RateLimitedError :: string where
  "RateLimitedError =
     ''High Traffic: The service is currently busy. Please try again in a few seconds.''"

definition NetworkError :: string where
  "NetworkError = ''Network Error: Please check your internet connection.''"

definition ContentPolicyError :: string where
  "ContentPolicyError =
     ''Content Warning: The input was flagged by safety filters. Try a different drawing.''"

definition MalformedResponseError :: string where
  \<open>MalformedResponseError =
     ''Data Error: Could not interpret the AI'' @ [CHR 0x27] @ ''s response. Please try again.''\<close>

definition categorize :: "string \<Rightarrow> string" where
  \<comment> \<open>the \<^verbatim>\<open>if\<close>/\<^verbatim>\<open>else if\<close> chain of the \<^verbatim>\<open>catch\<close> block, in its order\<close>
  "categorize s =
     (if includes_str s ''API key'' \<or> includes_str s ''401'' then AuthError
      else if includes_str s ''403'' then AccessDeniedError
      else if includes_str s ''429'' then RateLimitedError
      else if includes_str s ''fetch failed'' \<or> includes_str s ''network'' then NetworkError
      else if includes_str s ''Safety'' \<or> includes_str s ''blocked'' then ContentPolicyError
      else if includes_str s ''JSON'' \<or> includes_str s ''structure'' then MalformedResponseError
      else s)"

subsection \<open>The outbound request\<close>

datatype part =
    is_InlineData: InlineData (data: string) (mimeType: string)
  | is_TextPart: TextPart (text_of: string)

datatype schema_type = STRING | ARRAY_OF_STRING

record request =
  model :: string
  parts :: "part list"
  responseMimeType :: string
  properties :: "(string \<times> schema_type \<times> string) list"
  required :: "string list"

definition MODEL_NAME :: string where
  "MODEL_NAME = ''gemini-3-flash-preview''"

definition is_word_char :: "char \<Rightarrow> bool" where
  \<comment> \<open>the class \<^verbatim>\<open>\w\<close> of a regular expression: a letter, a digit or the underscore\<close>
  "is_word_char c =
     (let n = (of_char c :: nat)
      in (48 \<le> n \<and> n \<le> 57) \<or> (65 \<le> n \<and> n \<le> 90) \<or> n = 95 \<or> (97 \<le> n \<and> n \<le> 122))"

definition strip_data_url :: "string \<Rightarrow> string" where
  \<comment> \<open>\<^verbatim>\<open>imageData.replace(/^data:image\/\w+;base64,/, "")\<close>. The character after the
      run of \<^verbatim>\<open>\w\<close> must be \<^verbatim>\<open>;\<close>, which is not a word character, so the greedy run
      is the only candidate match.\<close>
  "strip_data_url s =
     (if startsWith s ''data:image/'' then
        (let rest = drop 11 s;
             after = dropWhile is_word_char rest
         in if takeWhile is_word_char rest \<noteq> [] \<and> startsWith after '';base64,''
            then drop 8 after else s)
      else s)"

definition nl :: string where
  "nl = [CHR 0x0A]"

fun directive :: "EducationLevel \<Rightarrow> string" where
  \<comment> \<open>the four level lines of item 4 of the prompt\<close>
  "directive FOUNDATION =
     ''For Foundation: Keep it simple, focus on daily life uses and basic atoms.''"
| "directive BOARD_LEVEL =
     ''For Board Level: Focus on standard properties, hybridization, and textbook definitions.''"
| "directive COMPETITIVE =
     ''For JEE/NEET: Focus on stability, reaction mechanisms, exceptions, electronic effects (resonance/inductive), and competitive exam trivia.''"
| "directive UNDERGRADUATE =
     ''For Undergraduate: Discuss molecular orbital theory, spectroscopic properties, and advanced synthesis.''"

definition promptText :: "string option \<Rightarrow> string option \<Rightarrow> EducationLevel \<Rightarrow> string" where
  \<comment> \<open>the template literal, then the \<^verbatim>\<open>+=\<close> under \<^verbatim>\<open>if (textInput)\<close>\<close>
  \<open>promptText imageData textInput level =
     nl
     @ ''    Act as a highly experienced Chemistry teacher in the Indian Education System.'' @ nl
     @ ''    Identify the chemical compound from the ''
     @ (if truthy imageData then ''image'' else ''name provided below'') @ ''.'' @ nl
     @ ''    '' @ nl
     @ ''    Target Audience Level: '' @ level_value level @ nl
     @ ''    '' @ nl
     @ ''    Provide a structured response containing:'' @ nl
     @ ''    1. Common Name'' @ nl
     @ ''    2. IUPAC Name'' @ nl
     @ ''    3. Molecular Formula'' @ nl
     @ ''    4. A summary explanation tailored specifically to the knowledge level of a student in ''
     @ level_value level @ ''.'' @ nl
     @ ''       - '' @ directive FOUNDATION @ nl
     @ ''       - '' @ directive BOARD_LEVEL @ nl
     @ ''       - '' @ directive COMPETITIVE @ nl
     @ ''       - '' @ directive UNDERGRADUATE @ nl
     @ ''    5. Key Properties/Facts (3-5 bullet points relevant to the level).'' @ nl
     @ ''    6. Common Reactions or Uses (relevant to the level).'' @ nl
     @ ''    7. Curriculum Context: A specific note on why this is important for this specific curriculum level (e.g., "Frequent question in JEE regarding acidity order").'' @ nl
     @ ''    8. Real World Analogy: A creative, non-chemistry analogy to help understand the molecule's behavior or structure (e.g., "Think of Benzene like a round table where everyone shares their food equally...").'' @ nl
     @ ''    9. Fun Facts: 3 interesting, quirky, or historical facts about this chemical.'' @ nl
     @ ''  ''
     @ (if truthy textInput then nl @ nl @ ''Chemical Name/Query: '' @ the textInput else [])\<close>

definition request_parts :: "string option \<Rightarrow> string option \<Rightarrow> EducationLevel \<Rightarrow> part list" where
  \<comment> \<open>the array \<^verbatim>\<open>parts\<close>: the image part is pushed under \<^verbatim>\<open>if (imageData)\<close>, the text
      part always\<close>
  "request_parts imageData textInput level =
     (if truthy imageData then
        [InlineData (strip_data_url (the imageData))
           (if startsWith (the imageData) ''data:image/jpeg'' then ''image/jpeg'' else ''image/png'')]
      else [])
     @ [TextPart (promptText imageData textInput level)]"

definition required_fields :: "string list" where
  "required_fields = [''name'', ''iupacName'', ''molecularFormula'', ''summary'', ''keyPoints'',
     ''reactions_or_uses'', ''curriculumContext'', ''analogy'', ''funFacts'']"

definition build_request :: "string option \<Rightarrow> string option \<Rightarrow> EducationLevel \<Rightarrow> request" where
  \<comment> \<open>the argument of \<^verbatim>\<open>ai.models.generateContent\<close>\<close>
  "build_request imageData textInput level =
     \<lparr>model = MODEL_NAME,
      parts = request_parts imageData textInput level,
      responseMimeType = ''application/json'',
      properties =
        [(''name'', STRING, ''Common Name''),
         (''iupacName'', STRING, ''IUPAC Name''),
         (''molecularFormula'', STRING, ''Molecular Formula (e.g., C6H6)''),
         (''summary'', STRING, ''Educational summary tailored to the level''),
         (''keyPoints'', ARRAY_OF_STRING, ''List of key properties or facts''),
         (''reactions_or_uses'', ARRAY_OF_STRING, ''List of reactions or uses''),
         (''curriculumContext'', STRING,
            ''Context specific to the Indian exam curriculum selected''),
         (''analogy'', STRING, ''A simple real-world analogy for the concept''),
         (''funFacts'', ARRAY_OF_STRING, ''List of fun or historical facts'')],
      required = required_fields\<rparr>"

subsection \<open>\<^verbatim>\<open>analyzeChemicalStructure\<close>\<close>

text \<open>
  The two collaborators that are not code of this repository are parameters:
  \<^item> \<open>backend\<close> is \<^verbatim>\<open>ai.models.generateContent\<close>: for a request it either rejects with a
    thrown value or resolves with a response, of which the code reads \<^verbatim>\<open>response.text\<close>
    only (\<open>None\<close> is \<^verbatim>\<open>undefined\<close>);
  \<^item> \<open>parse\<close> is \<^verbatim>\<open>JSON.parse\<close>: \<open>None\<close> when it throws.

  The result is the list of requests that were issued, then \<open>Inl msg\<close> for
  \<^verbatim>\<open>throw new Error(msg)\<close> or \<open>Inr data\<close> for \<^verbatim>\<open>return data\<close>.
\<close>

datatype backend_outcome = Rejects js_error | Resolves "string option"

definition try_block ::
  "(request \<Rightarrow> backend_outcome) \<Rightarrow> (string \<Rightarrow> 'n json option) \<Rightarrow> request \<Rightarrow> js_error + 'n json" where
  \<comment> \<open>the body of \<^verbatim>\<open>try\<close>: \<open>Inl\<close> is the value that reaches \<^verbatim>\<open>catch\<close>\<close>
  "try_block backend parse req =
     (case backend req of
        Rejects error \<Rightarrow> Inl error
      | Resolves response_text \<Rightarrow>
          if \<not> truthy response_text then Inl (Error ''Empty response received from AI model.'')
          else (case parse (the response_text) of
                  None \<Rightarrow> Inl (Error
                    ''Failed to structure the chemical data. The AI response was malformed.'')
                | Some parsedData \<Rightarrow> Inr parsedData))"

definition analyzeChemicalStructure ::
  "(request \<Rightarrow> backend_outcome) \<Rightarrow> (string \<Rightarrow> 'n json option) \<Rightarrow>
   string option \<Rightarrow> string option \<Rightarrow> EducationLevel \<Rightarrow> request list \<times> (string + 'n json)" where
  "analyzeChemicalStructure backend parse imageData textInput level =
     (if \<not> truthy imageData \<and> \<not> truthy textInput then ([], Inl ValidationError)
      else
        (let req = build_request imageData textInput level
         in ([req],
             case try_block backend parse req of
               Inl error \<Rightarrow> Inl (categorize (errString error))
             | Inr parsedData \<Rightarrow> Inr parsedData)))"

section \<open>The drawing surface (\<^verbatim>\<open>components/DrawingCanvas.tsx\<close>)\<close>

subsection \<open>The canvas element and its 2D context\<close>

text \<open>
  A canvas is its bitmap, its 2D context state and the place where the element lies in the
  viewport. A pixel is either transparent, as in a bitmap that was just allocated, or
  opaque with a colour; drawing composites source over destination. Coordinates in CSS
  pixels have the type \<open>'a\<close>, of which the code only needs subtraction. Which pixels a
  stroked path covers is decided by the browser's rasteriser, the parameter \<open>raster\<close>.
\<close>

type_synonym colour = string

datatype pixel = Transparent | Opaque colour

definition over :: "pixel \<Rightarrow> pixel \<Rightarrow> pixel" where
  "over src dst = (case src of Transparent \<Rightarrow> dst | Opaque c \<Rightarrow> Opaque c)"

record 'a context2d =
  path :: "(('a \<times> 'a) list \<times> bool) list"
  lineWidth :: nat
  strokeStyle :: colour
  fillStyle :: colour
  lineCap :: string
  lineJoin :: string

record 'a canvas =
  width :: nat
  height :: nat
  pixels :: "nat \<Rightarrow> nat \<Rightarrow> pixel"
  ctx :: "'a context2d"
  rect_left :: 'a
  rect_top :: 'a

definition default_context :: "'a context2d" where
  "default_context = \<lparr>path = [], lineWidth = 1, strokeStyle = ''#000000'',
     fillStyle = ''#000000'', lineCap = ''butt'', lineJoin = ''miter''\<rparr>"

definition createCanvas :: "'a \<Rightarrow> 'a \<Rightarrow> 'a canvas" where
  \<comment> \<open>a fresh canvas element: 300 by 150, transparent\<close>
  "createCanvas l t = \<lparr>width = 300, height = 150, pixels = (\<lambda>x y. Transparent),
     ctx = default_context, rect_left = l, rect_top = t\<rparr>"

definition set_width :: "nat \<Rightarrow> 'a canvas \<Rightarrow> 'a canvas" where
  \<comment> \<open>\<^verbatim>\<open>canvas.width = w\<close> allocates a transparent bitmap and resets the context\<close>
  "set_width w c = c\<lparr>width := w, pixels := (\<lambda>x y. Transparent), ctx := default_context\<rparr>"

definition set_height :: "nat \<Rightarrow> 'a canvas \<Rightarrow> 'a canvas" where
  "set_height h c = c\<lparr>height := h, pixels := (\<lambda>x y. Transparent), ctx := default_context\<rparr>"

definition pixel_at :: "'a canvas \<Rightarrow> nat \<Rightarrow> nat \<Rightarrow> pixel option" where
  \<comment> \<open>the pixel of the bitmap at column \<open>x\<close> and row \<open>y\<close>; \<open>None\<close> outside the bitmap\<close>
  "pixel_at c x y = (if x < width c \<and> y < height c then Some (pixels c x y) else None)"

definition fillRect :: "nat \<Rightarrow> nat \<Rightarrow> 'a canvas \<Rightarrow> 'a canvas" where
  \<comment> \<open>\<^verbatim>\<open>ctx.fillRect(0, 0, w, h)\<close>\<close>
  "fillRect w h c =
     c\<lparr>pixels := (\<lambda>x y. if x < w \<and> y < h then Opaque (fillStyle (ctx c)) else pixels c x y)\<rparr>"

datatype dom_exception = InvalidStateError

definition drawImage :: "'b canvas \<Rightarrow> 'a canvas \<Rightarrow> dom_exception + 'a canvas" where
  \<comment> \<open>\<^verbatim>\<open>ctx.drawImage(image, 0, 0)\<close>; an image canvas with a zero dimension is refused with
      an \<^verbatim>\<open>InvalidStateError\<close>\<close>
  "drawImage img c =
     (if width img = 0 \<or> height img = 0 then Inl InvalidStateError
      else Inr (c\<lparr>pixels := (\<lambda>x y. if x < width img \<and> y < height img
                                    then over (pixels img x y) (pixels c x y)
                                    else pixels c x y)\<rparr>))"

definition beginPath :: "'a canvas \<Rightarrow> 'a canvas" where
  "beginPath c = c\<lparr>ctx := (ctx c)\<lparr>path := []\<rparr>\<rparr>"

definition moveTo :: "'a \<Rightarrow> 'a \<Rightarrow> 'a canvas \<Rightarrow> 'a canvas" where
  "moveTo x y c = c\<lparr>ctx := (ctx c)\<lparr>path := path (ctx c) @ [([(x, y)], False)]\<rparr>\<rparr>"

definition lineTo :: "'a \<Rightarrow> 'a \<Rightarrow> 'a canvas \<Rightarrow> 'a canvas" where
  \<comment> \<open>with no subpath yet, \<^verbatim>\<open>lineTo\<close> only starts one, as \<^verbatim>\<open>moveTo\<close> does\<close>
  "lineTo x y c =
     (case path (ctx c) of
        [] \<Rightarrow> moveTo x y c
      | _ # _ \<Rightarrow>
          (let (pts, cl) = last (path (ctx c))
           in c\<lparr>ctx := (ctx c)\<lparr>path := butlast (path (ctx c)) @ [(pts @ [(x, y)], cl)]\<rparr>\<rparr>))"

definition closePath :: "'a canvas \<Rightarrow> 'a canvas" where
  \<comment> \<open>marks the last subpath closed and starts a new one at its first point\<close>
  "closePath c =
     (case path (ctx c) of
        [] \<Rightarrow> c
      | _ # _ \<Rightarrow>
          (let (pts, cl) = last (path (ctx c))
           in c\<lparr>ctx := (ctx c)\<lparr>path :=
                butlast (path (ctx c)) @ [(pts, True), (take 1 pts, False)]\<rparr>\<rparr>))"

definition stroke :: "('a context2d \<Rightarrow> nat \<Rightarrow> nat \<Rightarrow> bool) \<Rightarrow> 'a canvas \<Rightarrow> 'a canvas" where
  "stroke raster c =
     c\<lparr>pixels := (\<lambda>x y. if raster (ctx c) x y then Opaque (strokeStyle (ctx c))
                        else pixels c x y)\<rparr>"

subsection \<open>The component\<close>

datatype tool = Pen | Eraser

record 'a drawing_state =
  canvasRef :: "'a canvas option"
  isDrawing :: bool
  hasDrawn :: bool
  activeTool :: tool
  strokeColor :: colour

datatype 'a pointer_event =
    MouseEvent 'a 'a
  | TouchEvent "'a \<times> 'a" "('a \<times> 'a) list"

definition white :: colour where
  "white = ''#ffffff''"

definition mount :: "nat \<Rightarrow> nat \<Rightarrow> 'a \<Rightarrow> 'a \<Rightarrow> 'a drawing_state" where
  \<comment> \<open>the initial state of the hooks, and the initial fill of the effect, over the
      container's \<^verbatim>\<open>offsetWidth\<close> and \<^verbatim>\<open>offsetHeight\<close>\<close>
  "mount offsetWidth offsetHeight l t =
     \<lparr>canvasRef = Some (fillRect offsetWidth offsetHeight
          ((createCanvas l t)\<lparr>ctx := default_context\<lparr>fillStyle := white\<rparr>\<rparr>)),
      isDrawing = False, hasDrawn = False, activeTool = Pen, strokeColor = ''#1e293b''\<rparr>"

definition handleResize ::
  "(nat \<times> nat) option \<Rightarrow> 'a drawing_state \<Rightarrow> dom_exception + 'a drawing_state" where
  \<comment> \<open>\<open>rect\<close> is the size of the container's bounding rectangle in whole pixels, as the
      assignments to \<^verbatim>\<open>canvas.width\<close> and \<^verbatim>\<open>canvas.height\<close> store it, and \<open>None\<close> when
      \<^verbatim>\<open>containerRef.current\<close> is null. \<open>Inl\<close> is an exception that leaves the handler.\<close>
  "handleResize rect s =
     (case (rect, canvasRef s) of
        (Some (w, h), Some current) \<Rightarrow>
          (let tempCanvas = set_height (height current) (set_width (width current)
                 (createCanvas (rect_left current) (rect_top current)))
           in case drawImage current tempCanvas of
                Inl e \<Rightarrow> Inl e
              | Inr tempCanvas \<Rightarrow>
                  (let resized = set_height h (set_width w current);
                       ctx2 = (ctx resized)\<lparr>lineCap := ''round'', lineJoin := ''round'',
                                fillStyle := white\<rparr>;
                       filled = fillRect w h (resized\<lparr>ctx := ctx2\<rparr>)
                   in case drawImage tempCanvas filled of
                        Inl e \<Rightarrow> Inl e
                      | Inr restored \<Rightarrow> Inr (s\<lparr>canvasRef := Some restored\<rparr>)))
      | _ \<Rightarrow> Inr s)"

definition getCoordinates :: "'a::{zero,minus} canvas option \<Rightarrow> 'a pointer_event \<Rightarrow> 'a \<times> 'a" where
  "getCoordinates canvas e =
     (case canvas of
        None \<Rightarrow> (0, 0)
      | Some c \<Rightarrow>
          (let (clientX, clientY) =
                 (case e of MouseEvent x y \<Rightarrow> (x, y) | TouchEvent touch0 _ \<Rightarrow> touch0)
           in (clientX - rect_left c, clientY - rect_top c)))"

definition startDrawing ::
  "bool \<Rightarrow> 'a::{zero,minus} drawing_state \<Rightarrow> 'a pointer_event \<Rightarrow> 'a drawing_state" where
  "startDrawing isProcessing s e =
     (if isProcessing then s
      else
        (let s1 = s\<lparr>isDrawing := True, hasDrawn := True\<rparr>
         in case canvasRef s1 of
              None \<Rightarrow> s1
            | Some c \<Rightarrow>
                (let (offsetX, offsetY) = getCoordinates (canvasRef s1) e
                 in s1\<lparr>canvasRef := Some (moveTo offsetX offsetY (beginPath c))\<rparr>)))"

definition draw ::
  "('a context2d \<Rightarrow> nat \<Rightarrow> nat \<Rightarrow> bool) \<Rightarrow> bool \<Rightarrow> 'a::{zero,minus} drawing_state \<Rightarrow>
   'a pointer_event \<Rightarrow> 'a drawing_state" where
  "draw raster isProcessing s e =
     (if \<not> isDrawing s \<or> isProcessing then s
      else case canvasRef s of
             None \<Rightarrow> s
           | Some c \<Rightarrow>
               (let (offsetX, offsetY) = getCoordinates (canvasRef s) e;
                    ctx1 = (ctx c)\<lparr>lineWidth := (if activeTool s = Eraser then 20 else 3),
                             strokeStyle := (if activeTool s = Eraser then white else strokeColor s)\<rparr>
                in s\<lparr>canvasRef := Some (stroke raster (lineTo offsetX offsetY (c\<lparr>ctx := ctx1\<rparr>)))\<rparr>))"

definition stopDrawing :: "bool \<Rightarrow> 'a drawing_state \<Rightarrow> 'a drawing_state" where
  "stopDrawing isProcessing s =
     (if isProcessing then s
      else s\<lparr>canvasRef := map_option closePath (canvasRef s), isDrawing := False\<rparr>)"

definition clearCanvas :: "'a drawing_state \<Rightarrow> 'a drawing_state" where
  "clearCanvas s =
     (case canvasRef s of
        None \<Rightarrow> s
      | Some c \<Rightarrow>
          s\<lparr>canvasRef := Some (fillRect (width c) (height c)
                (c\<lparr>ctx := (ctx c)\<lparr>fillStyle := white\<rparr>\<rparr>)),
            hasDrawn := False\<rparr>)"

text \<open>
  \<open>handleCapture\<close> calls \<^verbatim>\<open>onCapture\<close> at most once: with \<^verbatim>\<open>null\<close> (\<open>OnCapture None\<close>, no
  content) or with the data URL that \<^verbatim>\<open>toDataURL('image/jpeg', 0.7)\<close> returns. The encoder
  is the browser's, the parameter \<open>toDataURL\<close>.
\<close>

datatype capture = NoCall | OnCapture "string option"

definition handleCapture ::
  "('a canvas \<Rightarrow> string \<Rightarrow> rat \<Rightarrow> string) \<Rightarrow> 'a drawing_state \<Rightarrow> capture" where
  "handleCapture toDataURL s =
     (if \<not> hasDrawn s then OnCapture None
      else case canvasRef s of
             None \<Rightarrow> NoCall
           | Some c \<Rightarrow> OnCapture (Some (toDataURL c ''image/jpeg'' (7 / 10))))"

text \<open>
  The states of a mounted surface: the state after mounting, then any sequence of events.
  A handler that throws leaves the state as it was.
\<close>

datatype 'a surface_event =
    Down "'a pointer_event"
  | Move "'a pointer_event"
  | Up
  | Resize "(nat \<times> nat) option"
  | SetTool tool
  | ClearAll
  | Relayout 'a 'a

fun fire ::
  "('a context2d \<Rightarrow> nat \<Rightarrow> nat \<Rightarrow> bool) \<Rightarrow> bool \<Rightarrow> 'a::{zero,minus} surface_event \<Rightarrow>
   'a drawing_state \<Rightarrow> 'a drawing_state" where
  "fire raster isProcessing (Down e) s = startDrawing isProcessing s e"
| "fire raster isProcessing (Move e) s = draw raster isProcessing s e"
| "fire raster isProcessing Up s = stopDrawing isProcessing s"
| "fire raster isProcessing (Resize rect) s =
     (case handleResize rect s of Inl _ \<Rightarrow> s | Inr s' \<Rightarrow> s')"
| "fire raster isProcessing (SetTool t) s = s\<lparr>activeTool := t\<rparr>"
| "fire raster isProcessing ClearAll s = clearCanvas s"
| "fire raster isProcessing (Relayout l t) s =
     s\<lparr>canvasRef := map_option (\<lambda>c. c\<lparr>rect_left := l, rect_top := t\<rparr>) (canvasRef s)\<rparr>"

inductive reachable ::
  "('a context2d \<Rightarrow> nat \<Rightarrow> nat \<Rightarrow> bool) \<Rightarrow> 'a::{zero,minus} drawing_state \<Rightarrow> bool"
  for raster :: "'a context2d \<Rightarrow> nat \<Rightarrow> nat \<Rightarrow> bool" where
  mounted: "reachable raster (mount offsetWidth offsetHeight l t)"
| fired: "reachable raster s \<Longrightarrow> reachable raster (fire raster isProcessing ev s)"

section \<open>Document export (\<^verbatim>\<open>handleDownloadPDF\<close> of the result card)\<close>

text \<open>
  The pagination of the rendered image. Lengths are in millimetres and are computed
  exactly, as rational numbers. A document is the list of its pages in order, the last one
  being the current page; a page is the list of the images placed on it. The image is
  always placed at \<open>x = 0\<close> with its full width and height, only \<open>y\<close> varies.
  A rendering of width zero makes \<^verbatim>\<open>imgHeight\<close> infinite or undefined in the source; the
  model gives no document for it.
\<close>

record placement =
  pos_y :: rat
  img_w :: rat
  img_h :: rat

type_synonym pdf = "placement list list"

definition imgWidth :: rat where
  "imgWidth = 210"

definition pageHeight :: rat where
  "pageHeight = 297"

definition new_pdf :: pdf where
  \<comment> \<open>\<^verbatim>\<open>new jsPDF(...)\<close> starts with one empty page\<close>
  "new_pdf = [[]]"

definition addPage :: "pdf \<Rightarrow> pdf" where
  "addPage doc = doc @ [[]]"

definition addImage :: "rat \<Rightarrow> rat \<Rightarrow> rat \<Rightarrow> pdf \<Rightarrow> pdf" where
  \<comment> \<open>\<^verbatim>\<open>pdf.addImage(imgData, 'PNG', 0, y, w, h)\<close>, on the current page\<close>
  "addImage y w h doc = butlast doc @ [last doc @ [\<lparr>pos_y = y, img_w = w, img_h = h\<rparr>]]"

function pagination_loop :: "rat \<Rightarrow> rat \<Rightarrow> pdf \<Rightarrow> pdf" where
  "pagination_loop imgHeight heightLeft doc =
     (if heightLeft \<ge> 0 then
        pagination_loop imgHeight (heightLeft - pageHeight)
          (addImage (heightLeft - imgHeight) imgWidth imgHeight (addPage doc))
      else doc)"
  by pat_completeness auto
termination
  by (relation "measure (\<lambda>(imgHeight, heightLeft, doc). nat (\<lfloor>heightLeft\<rfloor> + 1))")
     (auto simp: pageHeight_def)

definition paginate :: "nat \<Rightarrow> nat \<Rightarrow> pdf option" where
  \<comment> \<open>from \<^verbatim>\<open>const imgHeight = ...\<close> to the end of the \<^verbatim>\<open>while\<close> loop, for a rendered canvas
      of the given width and height\<close>
  "paginate canvas_width canvas_height =
     (if canvas_width = 0 then None
      else
        (let imgHeight = (of_nat canvas_height * imgWidth) / of_nat canvas_width;
             doc = addImage 0 imgWidth imgHeight new_pdf
         in Some (pagination_loop imgHeight (imgHeight - pageHeight) doc)))"

definition visible_band :: "placement \<Rightarrow> rat \<times> rat" where
  \<comment> \<open>the rows of the image, from its top, that fall on a page of height \<open>pageHeight\<close>:
      an interval, empty when its first component is not below its second\<close>
  "visible_band p = (max 0 (- pos_y p), min (img_h p) (pageHeight - pos_y p))"

section \<open>The controller (\<^verbatim>\<open>App\<close>)\<close>

record 'n app_state =
  level :: EducationLevel
  textInput :: string
  result :: "'n json option"
  isProcessing :: bool
  error :: "string option"
  isDarkMode :: bool

text \<open>
  What a user can do to the controller's state while a request is awaited. The submit
  controls are disabled then, so a second analysis is not among these events.
\<close>

datatype user_event = Typing string | SelectLevel EducationLevel | DismissError | ToggleTheme

fun on_user_event :: "user_event \<Rightarrow> 'n app_state \<Rightarrow> 'n app_state" where
  "on_user_event (Typing v) s =
     s\<lparr>textInput := v, error := (if truthy (error s) then None else error s)\<rparr>"
| "on_user_event (SelectLevel l) s = s\<lparr>level := l\<rparr>"
| "on_user_event DismissError s = s\<lparr>error := None\<rparr>"
| "on_user_event ToggleTheme s = s\<lparr>isDarkMode := \<not> isDarkMode s\<rparr>"

text \<open>
  \<open>handleAnalysis\<close> is modelled by the effects it performs, in program order: the state
  setters it calls and the requests that \<^verbatim>\<open>analyzeChemicalStructure\<close> issues. The events
  \<open>during\<close> are those of the user while the request is awaited.
\<close>

datatype 'n effect =
    SetIsProcessing bool
  | SetError "string option"
  | SetResult "'n json option"
  | Dispatch request
  | User user_event

fun apply_effect :: "'n app_state \<Rightarrow> 'n effect \<Rightarrow> 'n app_state" where
  "apply_effect s (SetIsProcessing b) = s\<lparr>isProcessing := b\<rparr>"
| "apply_effect s (SetError e) = s\<lparr>error := e\<rparr>"
| "apply_effect s (SetResult r) = s\<lparr>result := r\<rparr>"
| "apply_effect s (Dispatch req) = s"
| "apply_effect s (User ev) = on_user_event ev s"

definition non_null :: "'n json \<Rightarrow> 'n json option" where
  \<comment> \<open>a value as the state \<^verbatim>\<open>ChemicalData | null\<close> holds it: JSON's \<^verbatim>\<open>null\<close> is no result\<close>
  "non_null v = (case v of JNull \<Rightarrow> None | _ \<Rightarrow> Some v)"

definition handleAnalysis ::
  "(request \<Rightarrow> backend_outcome) \<Rightarrow> (string \<Rightarrow> 'n json option) \<Rightarrow> user_event list \<Rightarrow>
   'n app_state \<Rightarrow> string option \<Rightarrow> 'n effect list" where
  "handleAnalysis backend parse during s imageData =
     (if \<not> truthy imageData \<and> trim (textInput s) = [] then
        [SetError (Some ''Please draw a structure or enter a name.'')]
      else
        (let (requests, outcome) =
               analyzeChemicalStructure backend parse imageData
                 (if trim (textInput s) = [] then None else Some (trim (textInput s))) (level s)
         in [SetIsProcessing True, SetError None, SetResult None]
            @ map Dispatch requests
            @ map User during
            @ [case outcome of
                 Inl msg \<Rightarrow> SetError (Some msg)
               | Inr parsed \<Rightarrow> SetResult (non_null parsed),
               SetIsProcessing False]))"

text \<open>
  The page: the controller renders the drawing surface with its own processing flag as
  the property \<^verbatim>\<open>isProcessing\<close>.
\<close>

record ('a, 'n) page =
  app :: "'n app_state"
  surface :: "'a drawing_state"

definition page_fire ::
  "('a context2d \<Rightarrow> nat \<Rightarrow> nat \<Rightarrow> bool) \<Rightarrow> 'a::{zero,minus} surface_event \<Rightarrow>
   ('a, 'n) page \<Rightarrow> ('a, 'n) page" where
  "page_fire raster ev p = p\<lparr>surface := fire raster (isProcessing (app p)) ev (surface p)\<rparr>"

section \<open>Collaborators for running the model\<close>

text \<open>
  The theorems below hold for every backend, parser, rasteriser and encoder. To run the
  model on concrete inputs, here is one of each: a backend that rejects with a given
  error, a backend that answers with a given body, a reader for the fragment of JSON
  without fractions, exponents and \<^verbatim>\<open>\u\<close> escapes (it gives \<open>None\<close> outside this fragment;
  a key that occurs twice keeps its last value, as in \<^verbatim>\<open>JSON.parse\<close>), a rasteriser that
  paints the pixels which one segment of the stroke covers in full, and an encoder with
  a fixed payload.
\<close>

definition backend_rejecting :: "js_error \<Rightarrow> request \<Rightarrow> backend_outcome" where
  "backend_rejecting e req = Rejects e"

definition backend_responding :: "string \<Rightarrow> request \<Rightarrow> backend_outcome" where
  "backend_responding body req = Resolves (Some body)"

definition is_json_ws :: "char \<Rightarrow> bool" where
  "is_json_ws c = (c \<in> set [CHR 0x20, CHR 0x09, CHR 0x0A, CHR 0x0D])"

definition is_digit :: "char \<Rightarrow> bool" where
  "is_digit c = (let n = (of_char c :: nat) in 48 \<le> n \<and> n \<le> 57)"

definition unescape :: "char \<Rightarrow> char option" where
  "unescape e =
     (if e = CHR 0x22 \<or> e = CHR 0x5C \<or> e = CHR ''/'' then Some e
      else if e = CHR ''n'' then Some (CHR 0x0A)
      else if e = CHR ''t'' then Some (CHR 0x09)
      else if e = CHR ''r'' then Some (CHR 0x0D)
      else if e = CHR ''b'' then Some (CHR 0x08)
      else if e = CHR ''f'' then Some (CHR 0x0C)
      else None)"

fun json_string :: "string \<Rightarrow> string \<Rightarrow> (string \<times> string) option" where
  "json_string acc [] = None"
| "json_string acc [c] = (if c = CHR 0x22 then Some (rev acc, []) else None)"
| "json_string acc (c # d # cs) =
     (if c = CHR 0x22 then Some (rev acc, d # cs)
      else if c = CHR 0x5C then
        (case unescape d of None \<Rightarrow> None | Some u \<Rightarrow> json_string (u # acc) cs)
      else if (of_char c :: nat) < 32 then None
      else json_string (c # acc) (d # cs))"

definition digits_value :: "string \<Rightarrow> int" where
  "digits_value ds = foldl (\<lambda>n c. 10 * n + (int (of_char c) - 48)) 0 ds"

definition json_number :: "string \<Rightarrow> (int \<times> string) option" where
  "json_number s =
     (let neg = startsWith s ''-'';
          body = (if neg then drop 1 s else s);
          ds = takeWhile is_digit body;
          rest = dropWhile is_digit body
      in if ds = [] \<or> (hd ds = CHR ''0'' \<and> length ds > 1) then None
         else if startsWith rest ''.'' \<or> startsWith rest ''e'' \<or> startsWith rest ''E'' then None
         else Some (if neg then - digits_value ds else digits_value ds, rest))"

fun obj_put :: "string \<Rightarrow> 'v \<Rightarrow> (string \<times> 'v) list \<Rightarrow> (string \<times> 'v) list" where
  "obj_put k v [] = [(k, v)]"
| "obj_put k v ((k', v') # kvs) = (if k = k' then (k, v) # kvs else (k', v') # obj_put k v kvs)"

fun json_value :: "nat \<Rightarrow> string \<Rightarrow> (int json \<times> string) option"
and json_elements :: "nat \<Rightarrow> int json list \<Rightarrow> string \<Rightarrow> (int json \<times> string) option"
and json_members :: "nat \<Rightarrow> (string \<times> int json) list \<Rightarrow> string \<Rightarrow> (int json \<times> string) option" where
  "json_value 0 s = None"
| "json_value (Suc n) s =
     (let t = dropWhile is_json_ws s
      in if startsWith t ''null'' then Some (JNull, drop 4 t)
         else if startsWith t ''true'' then Some (JBool True, drop 4 t)
         else if startsWith t ''false'' then Some (JBool False, drop 5 t)
         else if startsWith t [CHR 0x22] then
           (case json_string [] (drop 1 t) of None \<Rightarrow> None | Some (str, r) \<Rightarrow> Some (JString str, r))
         else if startsWith t ''['' then
           (let r = dropWhile is_json_ws (drop 1 t)
            in if startsWith r '']'' then Some (JArray [], drop 1 r) else json_elements n [] r)
         else if startsWith t ''{'' then
           (let r = dropWhile is_json_ws (drop 1 t)
            in if startsWith r ''}'' then Some (JObject [], drop 1 r) else json_members n [] r)
         else (case json_number t of None \<Rightarrow> None | Some (i, r) \<Rightarrow> Some (JNumber i, r)))"
| "json_elements 0 acc s = None"
| "json_elements (Suc n) acc s =
     (case json_value n s of
        None \<Rightarrow> None
      | Some (v, r) \<Rightarrow>
          (let t = dropWhile is_json_ws r
           in if startsWith t '','' then json_elements n (acc @ [v]) (drop 1 t)
              else if startsWith t '']'' then Some (JArray (acc @ [v]), drop 1 t)
              else None))"
| "json_members 0 acc s = None"
| "json_members (Suc n) acc s =
     (let t = dropWhile is_json_ws s
      in if startsWith t [CHR 0x22] then
           (case json_string [] (drop 1 t) of
              None \<Rightarrow> None
            | Some (k, r) \<Rightarrow>
                (let r1 = dropWhile is_json_ws r
                 in if startsWith r1 '':'' then
                      (case json_value n (drop 1 r1) of
                         None \<Rightarrow> None
                       | Some (v, r2) \<Rightarrow>
                           (let t2 = dropWhile is_json_ws r2
                            in if startsWith t2 '','' then json_members n (obj_put k v acc) (drop 1 t2)
                               else if startsWith t2 ''}'' then Some (JObject (obj_put k v acc), drop 1 t2)
                               else None))
                    else None))
         else None)"

definition JSON_parse :: "string \<Rightarrow> int json option" where
  "JSON_parse s =
     (case json_value (Suc (2 * length s)) s of
        None \<Rightarrow> None
      | Some (v, r) \<Rightarrow> if dropWhile is_json_ws r = [] then Some v else None)"

text \<open>
  The rasteriser. A stroked segment from \<open>a\<close> to \<open>b\<close> covers the points within half the
  line width of it; beyond its two ends only a round cap covers anything. A segment whose
  ends coincide covers nothing, so a subpath without two distinct points paints nothing.
  A pixel is painted when its four corners are covered by one segment; the pixels that a
  stroke covers in part, which a browser blends, stay as they were. All comparisons are
  between squared lengths, in whole numbers.
\<close>

definition within_stroke :: "int context2d \<Rightarrow> int \<times> int \<Rightarrow> int \<times> int \<Rightarrow> int \<times> int \<Rightarrow> bool" where
  "within_stroke c a b p =
     (let dx = fst b - fst a; dy = snd b - snd a;
          len2 = dx * dx + dy * dy;
          dot = (fst p - fst a) * dx + (snd p - snd a) * dy;
          cross = (fst p - fst a) * dy - (snd p - snd a) * dx;
          w2 = int (lineWidth c) * int (lineWidth c)
      in if len2 = 0 then False
         else if dot < 0 then
           lineCap c = ''round''
           \<and> 4 * ((fst p - fst a) * (fst p - fst a) + (snd p - snd a) * (snd p - snd a)) \<le> w2
         else if len2 < dot then
           lineCap c = ''round''
           \<and> 4 * ((fst p - fst b) * (fst p - fst b) + (snd p - snd b) * (snd p - snd b)) \<le> w2
         else 4 * (cross * cross) \<le> w2 * len2)"

definition segments :: "(int \<times> int) list \<times> bool \<Rightarrow> ((int \<times> int) \<times> (int \<times> int)) list" where
  \<comment> \<open>the segments of a subpath; a closed subpath has one more, back to its first point\<close>
  "segments sub =
     (case sub of
        (pts, cl) \<Rightarrow> zip pts (tl pts) @ (if cl \<and> pts \<noteq> [] then [(last pts, hd pts)] else []))"

definition covered_raster :: "int context2d \<Rightarrow> nat \<Rightarrow> nat \<Rightarrow> bool" where
  "covered_raster c x y =
     list_ex (\<lambda>(a, b). list_all (within_stroke c a b)
                [(int x, int y), (int x + 1, int y), (int x, int y + 1), (int x + 1, int y + 1)])
       (concat (map segments (path c)))"

definition fixed_toDataURL :: "'a canvas \<Rightarrow> string \<Rightarrow> rat \<Rightarrow> string" where
  "fixed_toDataURL c mime quality = ''data:'' @ mime @ '';base64,/9j/4AAQSkZJRg==''"

definition sample_body :: string where
  \<open>sample_body = ''{"name": "Benzene", "iupacName": "Benzene", "molecularFormula": "C6H6", "summary": "A ring.", "keyPoints": ["Planar", "Aromatic"], "reactions_or_uses": ["Nitration"], "curriculumContext": "Boards", "analogy": "A round table", "funFacts": ["Kekule dreamt of a snake"]}''\<close>

definition sample_data :: "int json" where
  "sample_data = JObject
     [(''name'', JString ''Benzene''), (''iupacName'', JString ''Benzene''),
      (''molecularFormula'', JString ''C6H6''), (''summary'', JString ''A ring.''),
      (''keyPoints'', JArray [JString ''Planar'', JString ''Aromatic'']),
      (''reactions_or_uses'', JArray [JString ''Nitration'']),
      (''curriculumContext'', JString ''Boards''), (''analogy'', JString ''A round table''),
      (''funFacts'', JArray [JString ''Kekule dreamt of a snake''])]"

definition surface_pixel :: "'a drawing_state \<Rightarrow> nat \<Rightarrow> nat \<Rightarrow> pixel option" where
  \<comment> \<open>the pixel of the surface's bitmap at a position, \<open>None\<close> outside the bitmap\<close>
  "surface_pixel s x y = (case canvasRef s of None \<Rightarrow> None | Some c \<Rightarrow> pixel_at c x y)"

definition sample_stroke :: "int drawing_state" where
  \<comment> \<open>a surface of 300 by 150 pixels on which the pen was pressed at (200, 100), moved to
      (250, 100) and lifted\<close>
  "sample_stroke =
     fire covered_raster False Up
       (fire covered_raster False (Move (MouseEvent 250 100))
          (fire covered_raster False (Down (MouseEvent 200 100))
             (fire covered_raster False (Resize (Some (300, 150))) (mount 300 150 0 0))))"

definition sample_page :: "bool \<Rightarrow> (int, int) page" where
  \<comment> \<open>the page just after mounting, the canvas lying at (10, 20) in the viewport\<close>
  "sample_page busy =
     \<lparr>app = \<lparr>level = BOARD_LEVEL, textInput = [], result = None, isProcessing = busy,
              error = None, isDarkMode = False\<rparr>,
      surface = mount 300 150 10 20\<rparr>"

section \<open>Properties of the analysis service\<close>

subsection \<open>Strings and messages\<close>

lemma startsWith_prefix: "startsWith s p = prefix p s"
  by (induction s p rule: startsWith.induct) auto

lemma includes_str_sublist: "includes_str s p = sublist p s"
proof (induction s)
  case Nil
  show ?case by simp
next
  case (Cons c cs)
  show ?case
  proof (cases p)
    case Nil
    then show ?thesis by simp
  next
    case (Cons q qs)
    with Cons.IH show ?thesis by (simp add: startsWith_prefix sublist_Cons_right)
  qed
qed

lemma includes_str_append: "includes_str (a @ p @ b) p"
  by (simp add: includes_str_sublist)

lemma categorize_parse_failure:
  "categorize ''Failed to structure the chemical data. The AI response was malformed.''
     = MalformedResponseError"
  by (simp add: categorize_def)

lemma categorize_empty_response:
  "categorize ''Empty response received from AI model.'' = ''Empty response received from AI model.''"
  by (simp add: categorize_def)

lemma errString_Error: "errString (Error msg) = (if msg = [] then ''Error'' else msg)"
  by (simp add: errString_def Error_def truthy_def)

lemma JSON_parse_empty_object: "JSON_parse ''{}'' = Some (JObject [])"
  by code_simp

subsection \<open>Validation\<close>

text \<open>
  Claim C4. For every curriculum level, \<^verbatim>\<open>analyze(null, null, level)\<close> fails with the
  validation error, and no request has been issued: the list of requests is empty.
\<close>

theorem analyze_rejects_missing_input:
  "analyzeChemicalStructure backend parse None None lvl = ([], Inl ValidationError)"
  by (simp add: analyzeChemicalStructure_def truthy_def)


subsection \<open>Classification of failures\<close>

text \<open>
  Claim C2, as stated, fails: a description that contains \<^verbatim>\<open>429\<close> and also \<^verbatim>\<open>API key\<close> is
  classified as an authentication failure, since that check comes first in the chain.
\<close>

theorem classification_429_counterexample:
  "includes_str ''429 Too Many Requests: quota exceeded for this API key'' ''429''
   \<and> snd (analyzeChemicalStructure
          (backend_rejecting (Error ''429 Too Many Requests: quota exceeded for this API key''))
          JSON_parse None (Some ''Benzene'') BOARD_LEVEL) = Inl AuthError
   \<and> AuthError \<noteq> RateLimitedError"
  by (simp add: analyzeChemicalStructure_def try_block_def backend_rejecting_def truthy_def
      errString_Error categorize_def AuthError_def RateLimitedError_def)

text \<open>
  Claim C2, amended. When the backend rejects, the failure of the analysis is
  \<open>categorize\<close> of the error description, a function of that string alone. A description
  that contains \<^verbatim>\<open>403\<close> and neither \<^verbatim>\<open>API key\<close> nor \<^verbatim>\<open>401\<close> gives the access-denied error,
  also when it contains \<^verbatim>\<open>429\<close>; one that contains \<^verbatim>\<open>429\<close> and none of \<^verbatim>\<open>API key\<close>,
  \<^verbatim>\<open>401\<close> and \<^verbatim>\<open>403\<close> gives the rate-limit error.
\<close>

theorem classification_in_fixed_order:
  assumes "truthy imageData \<or> truthy query"
    and "backend (build_request imageData query lvl) = Rejects err"
  shows "snd (analyzeChemicalStructure backend parse imageData query lvl)
           = Inl (categorize (errString err))
     \<and> (includes_str (errString err) ''403'' \<and> \<not> includes_str (errString err) ''API key''
          \<and> \<not> includes_str (errString err) ''401''
        \<longrightarrow> snd (analyzeChemicalStructure backend parse imageData query lvl)
              = Inl AccessDeniedError)
     \<and> (includes_str (errString err) ''429'' \<and> \<not> includes_str (errString err) ''API key''
          \<and> \<not> includes_str (errString err) ''401'' \<and> \<not> includes_str (errString err) ''403''
        \<longrightarrow> snd (analyzeChemicalStructure backend parse imageData query lvl)
              = Inl RateLimitedError)"
proof -
  have "snd (analyzeChemicalStructure backend parse imageData query lvl)
          = Inl (categorize (errString err))"
    using assms by (auto simp: analyzeChemicalStructure_def try_block_def Let_def)
  then show ?thesis by (simp add: categorize_def)
qed

theorem classification_in_fixed_order_witness:
  "snd (analyzeChemicalStructure (backend_rejecting (Error ''403 Forbidden (after 429)''))
          JSON_parse None (Some ''Benzene'') BOARD_LEVEL) = Inl AccessDeniedError
   \<and> snd (analyzeChemicalStructure (backend_rejecting (Error ''429 Too Many Requests''))
          JSON_parse None (Some ''Benzene'') BOARD_LEVEL) = Inl RateLimitedError"
proof -
  have input: "truthy None \<or> truthy (Some ''Benzene'')"
    by (simp add: truthy_def)
  have rejects: "backend_rejecting e (build_request None (Some ''Benzene'') BOARD_LEVEL) = Rejects e"
    for e by (simp add: backend_rejecting_def)
  have both: "includes_str (errString (Error ''403 Forbidden (after 429)'')) ''403''
      \<and> \<not> includes_str (errString (Error ''403 Forbidden (after 429)'')) ''API key''
      \<and> \<not> includes_str (errString (Error ''403 Forbidden (after 429)'')) ''401''"
    by (simp add: errString_Error)
  have only_429: "includes_str (errString (Error ''429 Too Many Requests'')) ''429''
      \<and> \<not> includes_str (errString (Error ''429 Too Many Requests'')) ''API key''
      \<and> \<not> includes_str (errString (Error ''429 Too Many Requests'')) ''401''
      \<and> \<not> includes_str (errString (Error ''429 Too Many Requests'')) ''403''"
    by (simp add: errString_Error)
  from classification_in_fixed_order
         [where backend = "backend_rejecting (Error ''403 Forbidden (after 429)'')"
            and parse = JSON_parse, OF input rejects] both
  have first: "snd (analyzeChemicalStructure (backend_rejecting (Error ''403 Forbidden (after 429)''))
          JSON_parse None (Some ''Benzene'') BOARD_LEVEL) = Inl AccessDeniedError"
    by blast
  from classification_in_fixed_order
         [where backend = "backend_rejecting (Error ''429 Too Many Requests'')"
            and parse = JSON_parse, OF input rejects] only_429
  have second: "snd (analyzeChemicalStructure (backend_rejecting (Error ''429 Too Many Requests''))
          JSON_parse None (Some ''Benzene'') BOARD_LEVEL) = Inl RateLimitedError"
    by blast
  from first second show ?thesis by blast
qed

subsection \<open>The response body\<close>

lemma JSON_parse_plain_text: "JSON_parse ''I cannot identify this compound.'' = None"
  by code_simp

lemma JSON_parse_sample_body: "JSON_parse sample_body = Some sample_data"
  unfolding sample_body_def sample_data_def by code_simp

lemma sample_data_complete: "\<forall>k \<in> set required_fields. field sample_data k \<noteq> None"
  by (simp add: required_fields_def sample_data_def)

text \<open>
  Claim C1, as stated, fails: the body \<^verbatim>\<open>{}\<close> parses and has none of the nine required
  fields, and the analysis succeeds with the empty object.
\<close>

theorem missing_fields_counterexample:
  "JSON_parse ''{}'' = Some (JObject [])
   \<and> field (JObject [] :: int json) ''name'' = None
   \<and> snd (analyzeChemicalStructure (backend_responding ''{}'') JSON_parse
            None (Some ''Benzene'') BOARD_LEVEL) = Inr (JObject [])"
  by (simp add: analyzeChemicalStructure_def try_block_def backend_responding_def truthy_def
      JSON_parse_empty_object)

text \<open>
  Claim C1, amended. When the backend resolves with a body: a body that is not empty and
  does not parse makes the analysis fail with the malformed-response error; a body that
  is not empty and parses is returned as parsed, with no check of its fields; an empty
  body makes the analysis fail with the message \<^verbatim>\<open>Empty response received from AI model.\<close>
\<close>

theorem malformed_body_is_surfaced:
  assumes "truthy imageData \<or> truthy query"
    and "backend (build_request imageData query lvl) = Resolves (Some body)"
  shows "(body \<noteq> [] \<and> parse body = None \<longrightarrow>
            snd (analyzeChemicalStructure backend parse imageData query lvl)
              = Inl MalformedResponseError)
     \<and> (\<forall>parsedData. body \<noteq> [] \<and> parse body = Some parsedData \<longrightarrow>
            snd (analyzeChemicalStructure backend parse imageData query lvl) = Inr parsedData)
     \<and> (body = [] \<longrightarrow>
            snd (analyzeChemicalStructure backend parse imageData query lvl)
              = Inl ''Empty response received from AI model.'')"
  using assms
  by (auto simp: analyzeChemicalStructure_def try_block_def Let_def truthy_def errString_Error
      categorize_parse_failure categorize_empty_response)

theorem malformed_body_is_surfaced_witness:
  "snd (analyzeChemicalStructure (backend_responding ''I cannot identify this compound.'')
          JSON_parse None (Some ''Benzene'') BOARD_LEVEL) = Inl MalformedResponseError
   \<and> snd (analyzeChemicalStructure (backend_responding ''{}'')
          JSON_parse None (Some ''Benzene'') BOARD_LEVEL) = Inr (JObject [])
   \<and> snd (analyzeChemicalStructure (backend_responding [])
          JSON_parse None (Some ''Benzene'') BOARD_LEVEL)
        = Inl ''Empty response received from AI model.''"
proof -
  have input: "truthy None \<or> truthy (Some ''Benzene'')"
    by (simp add: truthy_def)
  have responds: "backend_responding b (build_request None (Some ''Benzene'') BOARD_LEVEL)
      = Resolves (Some b)" for b
    by (simp add: backend_responding_def)
  have unparsable: "''I cannot identify this compound.'' \<noteq> []
      \<and> JSON_parse ''I cannot identify this compound.'' = None"
    by (simp add: JSON_parse_plain_text)
  have incomplete: "''{}'' \<noteq> [] \<and> JSON_parse ''{}'' = Some (JObject [])"
    by (simp add: JSON_parse_empty_object)
  from malformed_body_is_surfaced
         [where backend = "backend_responding ''I cannot identify this compound.''" and parse = JSON_parse, OF input responds] unparsable
  have first: "snd (analyzeChemicalStructure (backend_responding ''I cannot identify this compound.'')
          JSON_parse None (Some ''Benzene'') BOARD_LEVEL) = Inl MalformedResponseError"
    by blast
  from malformed_body_is_surfaced
         [where backend = "backend_responding ''{}''" and parse = JSON_parse, OF input responds] incomplete
  have second: "snd (analyzeChemicalStructure (backend_responding ''{}'')
          JSON_parse None (Some ''Benzene'') BOARD_LEVEL) = Inr (JObject [])"
    by blast
  from malformed_body_is_surfaced
         [where backend = "backend_responding []" and parse = JSON_parse, OF input responds]
  have third: "snd (analyzeChemicalStructure (backend_responding [])
          JSON_parse None (Some ''Benzene'') BOARD_LEVEL)
        = Inl ''Empty response received from AI model.''"
    by blast
  from first second third show ?thesis by blast
qed

text \<open>
  Claim C5. When the backend resolves with a body that parses to a value with all nine
  required fields, the analysis issues one request and returns that very value.
\<close>

theorem complete_response_passes_through:
  assumes "truthy imageData \<or> truthy query"
    and "backend (build_request imageData query lvl) = Resolves (Some body)"
    and "body \<noteq> []"
    and "parse body = Some parsedData"
    and "\<forall>k \<in> set required_fields. field parsedData k \<noteq> None"
  shows "analyzeChemicalStructure backend parse imageData query lvl
           = ([build_request imageData query lvl], Inr parsedData)"
  using assms
  by (auto simp: analyzeChemicalStructure_def try_block_def Let_def truthy_def)

theorem complete_response_passes_through_witness:
  "analyzeChemicalStructure (backend_responding sample_body) JSON_parse
      None (Some ''Benzene'') BOARD_LEVEL
     = ([build_request None (Some ''Benzene'') BOARD_LEVEL], Inr sample_data)
   \<and> field sample_data ''molecularFormula'' = Some (JString ''C6H6'')"
proof -
  have input: "truthy None \<or> truthy (Some ''Benzene'')"
    by (simp add: truthy_def)
  have responds: "backend_responding sample_body (build_request None (Some ''Benzene'') BOARD_LEVEL)
      = Resolves (Some sample_body)"
    by (simp add: backend_responding_def)
  have nonempty: "sample_body \<noteq> []"
    by (simp add: sample_body_def)
  have formula: "field sample_data ''molecularFormula'' = Some (JString ''C6H6'')"
    by (simp add: sample_data_def)
  from complete_response_passes_through
         [where backend = "backend_responding sample_body" and parse = JSON_parse,
          OF input responds nonempty JSON_parse_sample_body sample_data_complete] formula
  show ?thesis by blast
qed

subsection \<open>The parts of the request\<close>

lemma includes_str_here: "includes_str (p @ t) p"
  by (simp add: includes_str_sublist)

lemma includes_str_skip: "includes_str t p \<Longrightarrow> includes_str (s @ t) p"
  by (simp add: includes_str_sublist sublist_append)

lemma includes_str_longer: "includes_str (p @ q @ t) (p @ q)"
  using includes_str_here [of "p @ q" t] by simp

lemma promptText_directive: "includes_str (promptText imageData query lvl) (directive lvl)"
  unfolding promptText_def
  by (cases lvl) (fast intro: includes_str_here includes_str_skip)+

lemma promptText_level:
  "includes_str (promptText imageData query lvl) (''    Target Audience Level: '' @ level_value lvl)"
  unfolding promptText_def
  by (fast intro: includes_str_longer includes_str_skip)

lemma includes_str_self: "includes_str p p"
  by (simp add: includes_str_sublist)

lemma includes_str_then: "c \<Longrightarrow> includes_str a p \<Longrightarrow> includes_str (if c then a else b) p"
  by simp

lemma promptText_query:
  "truthy query \<Longrightarrow>
   includes_str (promptText imageData query lvl) (''Chemical Name/Query: '' @ the query)"
  unfolding promptText_def
  by (fast intro: includes_str_self includes_str_skip includes_str_then)


text \<open>
  Claim C6. An analysis with an image or a text issues one request. Its parts hold one
  text part; one image part when the image is a non-empty string and none otherwise (an
  empty string is falsy, as \<^verbatim>\<open>null\<close> is). The image part carries the still without its
  data-URL prefix, with the MIME type \<^verbatim>\<open>image/jpeg\<close> when the still starts with
  \<^verbatim>\<open>data:image/jpeg\<close> and \<^verbatim>\<open>image/png\<close> otherwise. The text part contains the directive
  of the selected level, the line naming that level and, when a text is given, the query
  line with the text.
\<close>

theorem request_carries_image_and_prompt:
  assumes "truthy imageData \<or> truthy query"
  shows "fst (analyzeChemicalStructure backend parse imageData query lvl)
           = [build_request imageData query lvl]
     \<and> length (filter is_TextPart (parts (build_request imageData query lvl))) = 1
     \<and> length (filter is_InlineData (parts (build_request imageData query lvl)))
           = (if truthy imageData then 1 else 0)
     \<and> (\<forall>p \<in> set (parts (build_request imageData query lvl)). is_InlineData p \<longrightarrow>
            data p = strip_data_url (the imageData)
            \<and> mimeType p = (if startsWith (the imageData) ''data:image/jpeg''
                            then ''image/jpeg'' else ''image/png''))
     \<and> (\<forall>p \<in> set (parts (build_request imageData query lvl)). is_TextPart p \<longrightarrow>
            includes_str (text_of p) (directive lvl)
            \<and> includes_str (text_of p) (''    Target Audience Level: '' @ level_value lvl)
            \<and> (truthy query \<longrightarrow> includes_str (text_of p) (''Chemical Name/Query: '' @ the query)))"
proof -
  have issued: "fst (analyzeChemicalStructure backend parse imageData query lvl)
      = [build_request imageData query lvl]"
    using assms by (auto simp: analyzeChemicalStructure_def Let_def)
  have shape: "parts (build_request imageData query lvl) = request_parts imageData query lvl"
    by (simp add: build_request_def)
  have texts: "length (filter is_TextPart (request_parts imageData query lvl)) = 1"
    by (simp add: request_parts_def)
  have images: "length (filter is_InlineData (request_parts imageData query lvl))
      = (if truthy imageData then 1 else 0)"
    by (simp add: request_parts_def)
  have image_part: "\<forall>p \<in> set (request_parts imageData query lvl). is_InlineData p \<longrightarrow>
      data p = strip_data_url (the imageData)
      \<and> mimeType p = (if startsWith (the imageData) ''data:image/jpeg''
                      then ''image/jpeg'' else ''image/png'')"
    by (simp add: request_parts_def)
  have text_part: "\<forall>p \<in> set (request_parts imageData query lvl). is_TextPart p \<longrightarrow>
      includes_str (text_of p) (directive lvl)
      \<and> includes_str (text_of p) (''    Target Audience Level: '' @ level_value lvl)
      \<and> (truthy query \<longrightarrow> includes_str (text_of p) (''Chemical Name/Query: '' @ the query))"
    using promptText_directive [of imageData query lvl] promptText_level [of imageData query lvl]
      promptText_query [of query imageData lvl]
    by (simp add: request_parts_def)
  from issued texts images image_part text_part show ?thesis
    unfolding shape by blast
qed

theorem request_carries_image_and_prompt_witness:
  "parts (build_request (Some ''data:image/jpeg;base64,/9j/4AAQSkZJRg=='') None BOARD_LEVEL)
     = [InlineData ''/9j/4AAQSkZJRg=='' ''image/jpeg'',
        TextPart (promptText (Some ''data:image/jpeg;base64,/9j/4AAQSkZJRg=='') None BOARD_LEVEL)]
   \<and> fst (analyzeChemicalStructure (backend_responding sample_body) JSON_parse
           (Some ''data:image/jpeg;base64,/9j/4AAQSkZJRg=='') None BOARD_LEVEL)
       = [build_request (Some ''data:image/jpeg;base64,/9j/4AAQSkZJRg=='') None BOARD_LEVEL]
   \<and> includes_str (promptText (Some ''data:image/jpeg;base64,/9j/4AAQSkZJRg=='') None BOARD_LEVEL)
         ''For Board Level: Focus on standard properties, hybridization, and textbook definitions.''
   \<and> parts (build_request None (Some ''Benzene'') BOARD_LEVEL)
       = [TextPart (promptText None (Some ''Benzene'') BOARD_LEVEL)]
   \<and> includes_str (promptText None (Some ''Benzene'') BOARD_LEVEL)
         ''Chemical Name/Query: Benzene''"
proof -
  let ?still = "Some ''data:image/jpeg;base64,/9j/4AAQSkZJRg==''"
  have drawn: "truthy ?still \<or> truthy None"
    by (simp add: truthy_def)
  have typed: "truthy None \<or> truthy (Some ''Benzene'')"
    by (simp add: truthy_def)
  have with_image: "parts (build_request ?still None BOARD_LEVEL)
      = [InlineData ''/9j/4AAQSkZJRg=='' ''image/jpeg'', TextPart (promptText ?still None BOARD_LEVEL)]"
    by (simp add: build_request_def request_parts_def truthy_def strip_data_url_def
        is_word_char_def)
  have without_image: "parts (build_request None (Some ''Benzene'') BOARD_LEVEL)
      = [TextPart (promptText None (Some ''Benzene'') BOARD_LEVEL)]"
    by (simp add: build_request_def request_parts_def truthy_def)
  note image_case = request_carries_image_and_prompt
    [where backend = "backend_responding sample_body" and parse = JSON_parse
       and lvl = BOARD_LEVEL, OF drawn]
  note text_case = request_carries_image_and_prompt
    [where backend = "backend_responding sample_body" and parse = JSON_parse
       and lvl = BOARD_LEVEL, OF typed]
  from image_case have issued:
    "fst (analyzeChemicalStructure (backend_responding sample_body) JSON_parse ?still None BOARD_LEVEL)
       = [build_request ?still None BOARD_LEVEL]"
    by blast
  from image_case have "\<forall>p \<in> set (parts (build_request ?still None BOARD_LEVEL)).
      is_TextPart p \<longrightarrow> includes_str (text_of p) (directive BOARD_LEVEL)"
    by blast
  then have board: "includes_str (promptText ?still None BOARD_LEVEL)
      ''For Board Level: Focus on standard properties, hybridization, and textbook definitions.''"
    unfolding with_image by simp
  from text_case have "\<forall>p \<in> set (parts (build_request None (Some ''Benzene'') BOARD_LEVEL)).
      is_TextPart p \<longrightarrow> (truthy (Some ''Benzene'') \<longrightarrow>
        includes_str (text_of p) (''Chemical Name/Query: '' @ the (Some ''Benzene'')))"
    by blast
  then have query: "includes_str (promptText None (Some ''Benzene'') BOARD_LEVEL)
      ''Chemical Name/Query: Benzene''"
    unfolding without_image by (simp add: truthy_def)
  from with_image issued board without_image query show ?thesis by blast
qed

section \<open>Properties of the controller\<close>

lemma user_events_keep_result:
  "result (foldl apply_effect s (map User evs)) = result s"
proof (induction evs arbitrary: s)
  case Nil
  show ?case by simp
next
  case (Cons ev evs)
  have "result (on_user_event ev s) = result s" by (cases ev) simp_all
  with Cons.IH [of "on_user_event ev s"] show ?case by simp
qed

lemma user_events_keep_isProcessing:
  "isProcessing (foldl apply_effect s (map User evs)) = isProcessing s"
proof (induction evs arbitrary: s)
  case Nil
  show ?case by simp
next
  case (Cons ev evs)
  have "isProcessing (on_user_event ev s) = isProcessing s" by (cases ev) simp_all
  with Cons.IH [of "on_user_event ev s"] show ?case by simp
qed

text \<open>
  Claim C10. When \<open>handleAnalysis\<close> passes its guard, its first effects are, in order,
  setting the processing flag, clearing the error and clearing the result, and only then
  the request is dispatched; in the state after these three effects the result and the
  error are both null. When the analysis fails with a message, the final state holds no
  result, holds that message as its error, and is no longer processing, whatever the
  user typed or selected meanwhile.
\<close>

theorem pending_clears_result_and_error:
  assumes "truthy imageData \<or> trim (textInput s) \<noteq> []"
  shows
    "(let query = (if trim (textInput s) = [] then None else Some (trim (textInput s)));
          outcome = snd (analyzeChemicalStructure backend parse imageData query (level s));
          effects = handleAnalysis backend parse during s imageData;
          pending = foldl apply_effect s (take 3 effects);
          final = foldl apply_effect s effects
      in take 4 effects = [SetIsProcessing True, SetError None, SetResult None,
                           Dispatch (build_request imageData query (level s))]
         \<and> isProcessing pending \<and> result pending = None \<and> error pending = None
         \<and> (\<forall>msg. outcome = Inl msg \<longrightarrow>
               result final = None \<and> error final = Some msg \<and> \<not> isProcessing final))"
proof -
  define query where "query = (if trim (textInput s) = [] then None else Some (trim (textInput s)))"
  define outcome where
    "outcome = snd (analyzeChemicalStructure backend parse imageData query (level s))"
  have input: "truthy imageData \<or> truthy query"
    using assms by (auto simp: query_def truthy_def)
  then have issued: "analyzeChemicalStructure backend parse imageData query (level s)
      = ([build_request imageData query (level s)], outcome)"
    by (auto simp: outcome_def analyzeChemicalStructure_def Let_def)
  have guard: "\<not> (\<not> truthy imageData \<and> trim (textInput s) = [])"
    using assms by blast
  have effects: "handleAnalysis backend parse during s imageData
      = [SetIsProcessing True, SetError None, SetResult None,
         Dispatch (build_request imageData query (level s))]
        @ map User during
        @ [case outcome of
             Inl msg \<Rightarrow> SetError (Some msg)
           | Inr parsed \<Rightarrow> SetResult (non_null parsed),
           SetIsProcessing False]"
    unfolding handleAnalysis_def using guard issued by (simp add: query_def [symmetric])
  have failed: "result (foldl apply_effect s (handleAnalysis backend parse during s imageData)) = None
      \<and> error (foldl apply_effect s (handleAnalysis backend parse during s imageData)) = Some msg
      \<and> \<not> isProcessing (foldl apply_effect s (handleAnalysis backend parse during s imageData))"
    if "outcome = Inl msg" for msg
    unfolding effects using that by (simp add: user_events_keep_result)
  show ?thesis
    unfolding Let_def query_def [symmetric] outcome_def [symmetric]
    using failed by (simp add: effects)
qed

theorem pending_clears_result_and_error_witness:
  "(let s = \<lparr>level = BOARD_LEVEL, textInput = ''Benzene'', result = Some sample_data,
              isProcessing = False, error = Some ''Earlier failure'', isDarkMode = False\<rparr>;
        final = foldl apply_effect s
          (handleAnalysis (backend_rejecting (Error ''fetch failed'')) JSON_parse
             [Typing ''Benzene ring''] s None)
    in result final = None \<and> error final = Some NetworkError \<and> \<not> isProcessing final)"
proof -
  let ?s = "\<lparr>level = BOARD_LEVEL, textInput = ''Benzene'', result = Some sample_data,
              isProcessing = False, error = Some ''Earlier failure'', isDarkMode = False\<rparr>"
  have trimmed: "trim (textInput ?s) = ''Benzene''"
    by (simp add: trim_def is_space_def)
  have input: "truthy None \<or> trim (textInput ?s) \<noteq> []"
    unfolding trimmed by simp
  have outcome: "snd (analyzeChemicalStructure (backend_rejecting (Error ''fetch failed'')) JSON_parse
      None (if trim (textInput ?s) = [] then None else Some (trim (textInput ?s))) (level ?s))
      = Inl NetworkError"
    unfolding trimmed
    by (simp add: analyzeChemicalStructure_def try_block_def backend_rejecting_def truthy_def
        errString_Error categorize_def)
  from pending_clears_result_and_error
         [where backend = "backend_rejecting (Error ''fetch failed'')" and parse = JSON_parse
            and during = "[Typing ''Benzene ring'']", OF input] outcome
  show ?thesis unfolding Let_def by blast
qed

section \<open>Properties of the drawing surface\<close>

text \<open>A mounted surface always has its canvas: no event detaches it.\<close>

lemma reachable_canvas: "reachable raster s \<Longrightarrow> canvasRef s \<noteq> None"
proof (induction rule: reachable.induct)
  case (mounted offsetWidth offsetHeight l t)
  show ?case by (simp add: mount_def)
next
  case (fired s isProcessing ev)
  then obtain c where c: "canvasRef s = Some c" by blast
  show ?case
  proof (cases ev)
    case (Down e)
    with c show ?thesis by (simp add: startDrawing_def Let_def split: prod.splits)
  next
    case (Move e)
    with c show ?thesis by (simp add: draw_def Let_def split: prod.splits)
  next
    case Up
    with c show ?thesis by (simp add: stopDrawing_def)
  next
    case (Resize rect)
    with c show ?thesis
      by (auto simp: handleResize_def Let_def split: sum.splits option.splits prod.splits)
  next
    case (SetTool t)
    with c show ?thesis by simp
  next
    case ClearAll
    with c show ?thesis by (simp add: clearCanvas_def)
  next
    case (Relayout l t)
    with c show ?thesis by simp
  qed
qed

lemma reachable_sample_stroke: "reachable covered_raster sample_stroke"
  unfolding sample_stroke_def by (intro reachable.intros)

lemma sample_stroke_size:
  "map_option width (canvasRef sample_stroke) = Some 300
   \<and> map_option height (canvasRef sample_stroke) = Some 150"
  unfolding sample_stroke_def by code_simp

lemma sample_stroke_ink: "surface_pixel sample_stroke 225 100 = Some (Opaque ''#1e293b'')"
  unfolding sample_stroke_def by code_simp

text \<open>
  Claim C8. In every state of a mounted surface, clearing resets \<open>hasDrawn\<close>, and a capture
  right after it calls \<^verbatim>\<open>onCapture(null)\<close>: no content, neither an image nor an error.
\<close>

theorem clear_resets_ink:
  assumes "reachable raster s"
  shows "hasDrawn (clearCanvas s) = False
     \<and> handleCapture toDataURL (clearCanvas s) = OnCapture None"
proof -
  from assms obtain c where "canvasRef s = Some c"
    using reachable_canvas by blast
  then show ?thesis by (simp add: clearCanvas_def handleCapture_def)
qed

theorem clear_resets_ink_witness:
  "hasDrawn sample_stroke
   \<and> handleCapture fixed_toDataURL sample_stroke
       = OnCapture (Some ''data:image/jpeg;base64,/9j/4AAQSkZJRg=='')
   \<and> hasDrawn (clearCanvas sample_stroke) = False
   \<and> handleCapture fixed_toDataURL (clearCanvas sample_stroke) = OnCapture None"
proof -
  have drawn: "hasDrawn sample_stroke"
    unfolding sample_stroke_def by code_simp
  have still: "handleCapture fixed_toDataURL sample_stroke
      = OnCapture (Some ''data:image/jpeg;base64,/9j/4AAQSkZJRg=='')"
    unfolding sample_stroke_def by code_simp
  from clear_resets_ink [OF reachable_sample_stroke, of fixed_toDataURL] drawn still
  show ?thesis by blast
qed

text \<open>
  Claim C9. The controller's processing flag is the surface's \<^verbatim>\<open>isProcessing\<close> property.
  While it is set, a pointer-down event and a pointer-move event leave the whole page as
  it was. While it is not set, a pointer-down event sets \<open>isDrawing\<close> and \<open>hasDrawn\<close> and
  replaces the path of the context by one new subpath that holds the point of the event,
  in canvas coordinates; nothing else changes.
\<close>

theorem startStroke_gated_by_processing:
  assumes "reachable raster (surface p)"
  shows "(isProcessing (app p) \<longrightarrow>
            page_fire raster (Down e) p = p \<and> page_fire raster (Move e) p = p)
     \<and> (\<not> isProcessing (app p) \<longrightarrow>
          (\<exists>c. canvasRef (surface p) = Some c
             \<and> page_fire raster (Down e) p =
                 p\<lparr>surface := (surface p)\<lparr>isDrawing := True, hasDrawn := True,
                      canvasRef := Some (c\<lparr>ctx := (ctx c)\<lparr>path :=
                        [([getCoordinates (Some c) e], False)]\<rparr>\<rparr>)\<rparr>\<rparr>))"
proof -
  from assms obtain c where c: "canvasRef (surface p) = Some c"
    using reachable_canvas by blast
  have idle: "page_fire raster (Down e) p = p \<and> page_fire raster (Move e) p = p"
    if "isProcessing (app p)"
    using that by (simp add: page_fire_def startDrawing_def draw_def)
  have begun: "page_fire raster (Down e) p =
      p\<lparr>surface := (surface p)\<lparr>isDrawing := True, hasDrawn := True,
           canvasRef := Some (c\<lparr>ctx := (ctx c)\<lparr>path :=
             [([getCoordinates (Some c) e], False)]\<rparr>\<rparr>)\<rparr>\<rparr>"
    if "\<not> isProcessing (app p)"
    using that c
    by (simp add: page_fire_def startDrawing_def Let_def beginPath_def moveTo_def
        split: prod.splits)
  from idle begun c show ?thesis by blast
qed

theorem startStroke_gated_by_processing_witness:
  "page_fire covered_raster (Down (MouseEvent 15 27)) (sample_page True) = sample_page True
   \<and> \<not> hasDrawn (surface (sample_page False))
   \<and> hasDrawn (surface (page_fire covered_raster (Down (MouseEvent 15 27)) (sample_page False)))
   \<and> isDrawing (surface (page_fire covered_raster (Down (MouseEvent 15 27)) (sample_page False)))
   \<and> map_option (\<lambda>c. path (ctx c))
        (canvasRef (surface (page_fire covered_raster (Down (MouseEvent 15 27)) (sample_page False))))
       = Some [([(5, 7)], False)]"
proof -
  have mounted: "reachable covered_raster (surface (sample_page busy))" for busy
    by (simp add: sample_page_def reachable.mounted)
  have busy: "isProcessing (app (sample_page True))"
    by (simp add: sample_page_def)
  have idle: "\<not> isProcessing (app (sample_page False))"
    by (simp add: sample_page_def)
  have fresh: "\<not> hasDrawn (surface (sample_page False))"
    by (simp add: sample_page_def mount_def)
  from startStroke_gated_by_processing [OF mounted, of True "MouseEvent 15 27"] busy
  have ignored: "page_fire covered_raster (Down (MouseEvent 15 27)) (sample_page True)
      = sample_page True"
    by blast
  from startStroke_gated_by_processing [OF mounted, of False "MouseEvent 15 27"] idle
  obtain c where c: "canvasRef (surface (sample_page False)) = Some c"
    and begun: "page_fire covered_raster (Down (MouseEvent 15 27)) (sample_page False) =
      (sample_page False)\<lparr>surface := (surface (sample_page False))\<lparr>isDrawing := True,
         hasDrawn := True,
         canvasRef := Some (c\<lparr>ctx := (ctx c)\<lparr>path :=
           [([getCoordinates (Some c) (MouseEvent 15 27)], False)]\<rparr>\<rparr>)\<rparr>\<rparr>"
    by blast
  from c have origin: "rect_left c = 10" "rect_top c = 20"
    by (auto simp: sample_page_def mount_def fillRect_def createCanvas_def)
  have point: "getCoordinates (Some c) (MouseEvent 15 27) = (5, 7)"
    by (simp add: getCoordinates_def origin)
  from ignored fresh show ?thesis
    unfolding begun point by simp
qed

text \<open>
  Claim C3, as stated, fails for a smaller size. On a bitmap of 300 by 150 pixels the pen
  is pressed at (200, 100), moved to (250, 100) and lifted, which leaves ink on the pixels
  along that line. A resize to 100 by 100 leaves a bitmap of that size: the positions of
  the line have no pixel any more, and the kept corner is white as it was.
\<close>

theorem resize_smaller_counterexample:
  "surface_pixel sample_stroke 200 100 = Some (Opaque ''#1e293b'')
   \<and> surface_pixel sample_stroke 225 100 = Some (Opaque ''#1e293b'')
   \<and> surface_pixel sample_stroke 249 99 = Some (Opaque ''#1e293b'')
   \<and> map_option width
        (canvasRef (fire covered_raster False (Resize (Some (100, 100))) sample_stroke)) = Some 100
   \<and> map_option height
        (canvasRef (fire covered_raster False (Resize (Some (100, 100))) sample_stroke)) = Some 100
   \<and> surface_pixel (fire covered_raster False (Resize (Some (100, 100))) sample_stroke) 200 100
       = None
   \<and> surface_pixel (fire covered_raster False (Resize (Some (100, 100))) sample_stroke) 225 100
       = None
   \<and> surface_pixel (fire covered_raster False (Resize (Some (100, 100))) sample_stroke) 249 99
       = None
   \<and> surface_pixel (fire covered_raster False (Resize (Some (100, 100))) sample_stroke) 0 0
       = Some (Opaque white)
   \<and> surface_pixel (fire covered_raster False (Resize (Some (100, 100))) sample_stroke) 99 99
       = Some (Opaque white)"
  unfolding sample_stroke_def by code_simp

text \<open>
  Claim C3, amended. On a canvas whose bitmap has a positive width and height, a resize
  to \<open>w\<close> by \<open>h\<close> succeeds and gives a bitmap of that size in which every opaque pixel of
  the old bitmap that lies inside the new size keeps its colour, every position inside
  the new size that was outside the old bitmap or transparent is white, and nothing lies
  outside the new size: ink beyond the new width or height is cut off.
\<close>

theorem resize_keeps_ink_inside_new_size:
  assumes "canvasRef s = Some c" and "0 < width c" and "0 < height c"
  shows "\<exists>c'. handleResize (Some (w, h)) s = Inr (s\<lparr>canvasRef := Some c'\<rparr>)
     \<and> width c' = w \<and> height c' = h
     \<and> (\<forall>x y col. x < w \<and> y < h \<and> pixel_at c x y = Some (Opaque col)
           \<longrightarrow> pixel_at c' x y = Some (Opaque col))
     \<and> (\<forall>x y. x < w \<and> y < h \<and> (pixel_at c x y = None \<or> pixel_at c x y = Some Transparent)
           \<longrightarrow> pixel_at c' x y = Some (Opaque white))
     \<and> (\<forall>x y. \<not> (x < w \<and> y < h) \<longrightarrow> pixel_at c' x y = None)"
  using assms
  by (auto simp: handleResize_def Let_def drawImage_def set_width_def set_height_def
      createCanvas_def fillRect_def pixel_at_def over_def split: pixel.splits)

theorem resize_keeps_ink_inside_new_size_witness:
  "surface_pixel (fire covered_raster False (Resize (Some (400, 200))) sample_stroke) 225 100
     = Some (Opaque ''#1e293b'')
   \<and> surface_pixel (fire covered_raster False (Resize (Some (400, 200))) sample_stroke) 350 180
       = Some (Opaque white)
   \<and> surface_pixel (fire covered_raster False (Resize (Some (400, 200))) sample_stroke) 400 200
       = None"
proof -
  obtain c where c: "canvasRef sample_stroke = Some c"
    using reachable_canvas [OF reachable_sample_stroke] by blast
  from sample_stroke_size c have size: "width c = 300" "height c = 150"
    by simp_all
  then have positive: "0 < width c" "0 < height c"
    by simp_all
  from sample_stroke_ink c have ink: "pixel_at c 225 100 = Some (Opaque ''#1e293b'')"
    by (simp add: surface_pixel_def)
  have outside: "pixel_at c 350 180 = None"
    by (simp add: pixel_at_def size)
  from resize_keeps_ink_inside_new_size [OF c positive, of 400 200]
  obtain c' where resized: "handleResize (Some (400, 200)) sample_stroke
        = Inr (sample_stroke\<lparr>canvasRef := Some c'\<rparr>)"
    and kept: "\<forall>x y col. x < 400 \<and> y < 200 \<and> pixel_at c x y = Some (Opaque col)
        \<longrightarrow> pixel_at c' x y = Some (Opaque col)"
    and exposed: "\<forall>x y. x < 400 \<and> y < 200
        \<and> (pixel_at c x y = None \<or> pixel_at c x y = Some Transparent)
        \<longrightarrow> pixel_at c' x y = Some (Opaque white)"
    and cut: "\<forall>x y. \<not> (x < 400 \<and> y < 200) \<longrightarrow> pixel_at c' x y = None"
    by blast
  from resized
  have after: "surface_pixel (fire covered_raster False (Resize (Some (400, 200))) sample_stroke) x y
      = pixel_at c' x y" for x y
    by (simp add: surface_pixel_def)
  from kept ink have "pixel_at c' 225 100 = Some (Opaque ''#1e293b'')" by simp
  moreover from exposed outside have "pixel_at c' 350 180 = Some (Opaque white)" by simp
  moreover from cut have "pixel_at c' 400 200 = None" by simp
  ultimately show ?thesis unfolding after by blast
qed

section \<open>Properties of the document export\<close>

text \<open>
  The loop in closed form: page \<open>k\<close> holds the image shifted up by \<open>k\<close> page heights, for
  \<open>k\<close> from 0 to the integer part of \<open>imgHeight / pageHeight\<close>, inclusive.
\<close>

lemma addImage_addPage:
  "addImage y w h (addPage doc) = doc @ [[\<lparr>pos_y = y, img_w = w, img_h = h\<rparr>]]"
  by (simp add: addImage_def addPage_def)

lemma upt_0_Suc: "[0..<Suc n] = 0 # map Suc [0..<n]"
  by (simp add: map_Suc_upt upt_conv_Cons)

lemma pagination_loop_pages:
  "pagination_loop H hl doc =
     doc @ map (\<lambda>i. [\<lparr>pos_y = hl - pageHeight * of_nat i - H, img_w = imgWidth, img_h = H\<rparr>])
             [0..<nat (\<lfloor>hl / pageHeight\<rfloor> + 1)]"
proof (induction H hl doc rule: pagination_loop.induct)
  case (1 H hl doc)
  show ?case
  proof (cases "hl \<ge> 0")
    case False
    then have "hl / pageHeight < 0" by (simp add: pageHeight_def)
    then have "\<lfloor>hl / pageHeight\<rfloor> + 1 \<le> 0" by linarith
    then have "nat (\<lfloor>hl / pageHeight\<rfloor> + 1) = 0" by simp
    with False show ?thesis by (subst pagination_loop.simps) simp
  next
    case True
    then have nonneg: "0 \<le> \<lfloor>hl / pageHeight\<rfloor>" by (simp add: pageHeight_def)
    have "(hl - pageHeight) / pageHeight = hl / pageHeight - 1"
      by (simp add: pageHeight_def field_simps)
    then have shift: "\<lfloor>(hl - pageHeight) / pageHeight\<rfloor> + 1 = \<lfloor>hl / pageHeight\<rfloor>" by simp
    from nonneg have count: "nat (\<lfloor>hl / pageHeight\<rfloor> + 1) = Suc (nat \<lfloor>hl / pageHeight\<rfloor>)"
      by linarith
    have "pagination_loop H hl doc =
        pagination_loop H (hl - pageHeight)
          (addImage (hl - H) imgWidth H (addPage doc))"
      using True by (subst pagination_loop.simps) simp
    also have "\<dots> = (doc @ [[\<lparr>pos_y = hl - H, img_w = imgWidth, img_h = H\<rparr>]])
        @ map (\<lambda>i. [\<lparr>pos_y = hl - pageHeight - pageHeight * of_nat i - H,
                        img_w = imgWidth, img_h = H\<rparr>])
            [0..<nat \<lfloor>hl / pageHeight\<rfloor>]"
      using "1.IH" [OF True] by (simp only: shift addImage_addPage)
    also have "\<dots> = doc @ map (\<lambda>i. [\<lparr>pos_y = hl - pageHeight * of_nat i - H,
                        img_w = imgWidth, img_h = H\<rparr>])
            [0..<nat (\<lfloor>hl / pageHeight\<rfloor> + 1)]"
      unfolding count upt_0_Suc by (simp add: comp_def algebra_simps)
    finally show ?thesis .
  qed
qed

lemma paginate_pages:
  assumes "0 < canvas_width"
  shows "paginate canvas_width canvas_height =
     Some (map (\<lambda>k. [\<lparr>pos_y = - (pageHeight * of_nat k), img_w = imgWidth,
                        img_h = of_nat canvas_height * imgWidth / of_nat canvas_width\<rparr>])
             [0..<nat \<lfloor>of_nat canvas_height * imgWidth / of_nat canvas_width / pageHeight\<rfloor> + 1])"
proof -
  define H :: rat where "H = of_nat canvas_height * imgWidth / of_nat canvas_width"
  have "0 \<le> H" using assms by (simp add: H_def imgWidth_def)
  then have nonneg: "0 \<le> \<lfloor>H / pageHeight\<rfloor>" by (simp add: pageHeight_def)
  have "(H - pageHeight) / pageHeight = H / pageHeight - 1"
    by (simp add: pageHeight_def field_simps)
  then have shift: "\<lfloor>(H - pageHeight) / pageHeight\<rfloor> + 1 = \<lfloor>H / pageHeight\<rfloor>" by simp
  have first: "addImage 0 imgWidth H new_pdf = [[\<lparr>pos_y = 0, img_w = imgWidth, img_h = H\<rparr>]]"
    by (simp add: addImage_def new_pdf_def)
  have count: "[0..<nat \<lfloor>H / pageHeight\<rfloor> + 1] = 0 # map Suc [0..<nat \<lfloor>H / pageHeight\<rfloor>]"
    using upt_0_Suc [of "nat \<lfloor>H / pageHeight\<rfloor>"] by simp
  have "paginate canvas_width canvas_height =
      Some (pagination_loop H (H - pageHeight) (addImage 0 imgWidth H new_pdf))"
    using assms by (simp add: paginate_def H_def Let_def)
  also have "\<dots> = Some (map (\<lambda>k. [\<lparr>pos_y = - (pageHeight * of_nat k), img_w = imgWidth,
      img_h = H\<rparr>]) [0..<nat \<lfloor>H / pageHeight\<rfloor> + 1])"
    unfolding pagination_loop_pages first shift count
    by (simp add: comp_def algebra_simps)
  finally show ?thesis unfolding H_def .
qed

text \<open>
  Claim C7 on a rendering whose height is an exact number of pages: a canvas of 1600 by
  15840 pixels is 2079 mm high at a width of 210 mm, which is seven pages. The loop runs
  while \<^verbatim>\<open>heightLeft >= 0\<close>, so it adds an eighth page, on which the image lies wholly
  above the page: the band of the image visible on the seventh page is the last one,
  from 1782 to 2079, and the band on the eighth page is empty.
\<close>

theorem exact_multiple_adds_blank_page:
  "paginate 1600 15840 =
     Some [[\<lparr>pos_y = 0, img_w = 210, img_h = 2079\<rparr>],
           [\<lparr>pos_y = - 297, img_w = 210, img_h = 2079\<rparr>],
           [\<lparr>pos_y = - 594, img_w = 210, img_h = 2079\<rparr>],
           [\<lparr>pos_y = - 891, img_w = 210, img_h = 2079\<rparr>],
           [\<lparr>pos_y = - 1188, img_w = 210, img_h = 2079\<rparr>],
           [\<lparr>pos_y = - 1485, img_w = 210, img_h = 2079\<rparr>],
           [\<lparr>pos_y = - 1782, img_w = 210, img_h = 2079\<rparr>],
           [\<lparr>pos_y = - 2079, img_w = 210, img_h = 2079\<rparr>]]
   \<and> 2079 = 7 * pageHeight
   \<and> visible_band \<lparr>pos_y = - 1782, img_w = 210, img_h = 2079\<rparr> = (1782, 2079)
   \<and> visible_band \<lparr>pos_y = - 2079, img_w = 210, img_h = 2079\<rparr> = (2079, 2079)"
  by (simp add: paginate_def imgWidth_def pageHeight_def new_pdf_def addImage_def addPage_def
      Let_def visible_band_def)

end
